theory Spec2Isabelle
  imports Main "HOL-Library.Sublist"
begin

section \<open>Whisper STT server: the lane dispatcher and its two executors\<close>

text \<open>
  A shallow embedding of \<^verbatim>\<open>main_stt.py\<close> (version 1.2.3). The program is a Python
  module with two module-level globals (\<^verbatim>\<open>model_lock\<close>, \<^verbatim>\<open>whisper_model\<close>), two
  executor functions and one request handler. Everything the handler does to the outside
  is made explicit:

  \<^item> the filesystem is a map from paths to file contents, and the lock is a boolean;
    both live in the record \<open>world\<close>, which every operation takes and returns;
  \<^item> a Python exception is a value of \<open>py_error\<close>, and a function that may raise
    returns \<open>py_error + 'a\<close> (\<open>Inl\<close> is the raise);
  \<^item> the collaborators that the module calls but does not define (the speech engine,
    the worker executable, the temporary-file names, which file operations fail, the
    JSON parser, \<^verbatim>\<open>repr\<close> and \<^verbatim>\<open>str\<close> of library values) are the fields of the
    record \<open>platform\<close>: the theorems hold for every platform;
  \<^item> the world carries a log \<open>events\<close> of the actions taken (lock operations, lane
    entries, engine calls, spawned commands). The log is not in the source: it is there
    so that "the lock is not touched" and "no worker is spawned" can be stated.

  \<^verbatim>\<open>log_debug\<close> only prints, and \<^verbatim>\<open>file.read()\<close>, \<^verbatim>\<open>file.close()\<close> and
  \<^verbatim>\<open>asyncio.to_thread\<close> belong to the web framework: the request arrives here with its
  bytes read, and an executor is an ordinary call.
\<close>

subsection \<open>Values, errors and the world\<close>

type_synonym path = string
type_synonym bytes = string
type_synonym filesystem = "path \<rightharpoonup> bytes"

text \<open>What \<^verbatim>\<open>json.load\<close> and the engine return; a dict is read with \<open>map_of\<close>.\<close>

datatype pyval =
    PNone
  | PBool bool
  | PInt int
  | PFloat string
  | PStr string
  | PList "pyval list"
  | PDict "(string \<times> pyval) list"

text \<open>
  The exceptions that can reach the handler. \<open>CalledProcessError\<close> carries what
  \<^verbatim>\<open>subprocess.run(..., check=True, capture_output=True)\<close> puts into it: return code,
  command, captured stdout, captured stderr. The others carry their message, except
  \<open>KeyError\<close>, which carries the missing key.
\<close>

datatype py_error =
    OSError string
  | CalledProcessError int "string list" string string
  | JSONDecodeError string
  | KeyError string
  | TypeError string
  | AttributeError string
  | RuntimeError string
  | EngineError string

datatype http_exception = HTTPException (status_code: nat) (detail: string)

datatype proc_outcome =
    SpawnError py_error
  | Completed int string string

datatype 'f event =
    LockAcquire bool
  | LockRelease
  | EnterFastLane
  | EnterSlowLane
  | EngineCall path "string option" "string option" 'f
  | WorkerSpawn "string list"

record 'f world =
  files :: filesystem
  lock_held :: bool
  events :: "'f event list"

type_synonym 'f engine =
  "path \<Rightarrow> string option \<Rightarrow> string option \<Rightarrow> 'f \<Rightarrow> filesystem
     \<Rightarrow> (py_error + pyval) \<times> filesystem"

text \<open>
  The collaborators. \<open>'f\<close> is the type of the temperature, which the module only passes
  on and prints.
  \<^item> \<open>os_environ\<close>: the process environment.
  \<^item> \<open>load_model\<close>: \<^verbatim>\<open>whisper.load_model(name, download_root=dir)\<close>.
  \<^item> \<open>mkstemp\<close>: the name \<^verbatim>\<open>tempfile.NamedTemporaryFile(delete=False, suffix=.., dir=..)\<close>
    creates its file under, or the error it raises.
  \<^item> \<open>write_error\<close>: \<open>None\<close> when \<^verbatim>\<open>t.write(data)\<close> writes everything, otherwise the
    error raised and what reached the file.
  \<^item> \<open>remove_error\<close>: \<open>None\<close> when \<^verbatim>\<open>os.remove\<close> of an existing file succeeds,
    otherwise the error raised.
  \<^item> \<open>subprocess_run\<close>: the worker, run to completion on a command, an environment and a
    filesystem.
  \<^item> \<open>json_loads\<close>: \<^verbatim>\<open>json.load\<close> on the content of a file.
  \<^item> \<open>str_float\<close>, \<open>py_repr\<close>, \<open>signals_repr\<close>: \<^verbatim>\<open>str\<close> of a float, \<^verbatim>\<open>repr\<close> of a
    string, \<^verbatim>\<open>repr(signal.Signals(n))\<close> (\<open>None\<close> when \<open>n\<close> is not a signal).
\<close>

record 'f platform =
  os_environ :: "string \<rightharpoonup> string"
  load_model :: "string \<Rightarrow> path \<Rightarrow> py_error + 'f engine"
  mkstemp :: "path option \<Rightarrow> string \<Rightarrow> filesystem \<Rightarrow> py_error + path"
  write_error :: "path \<Rightarrow> bytes \<Rightarrow> (py_error \<times> bytes) option"
  remove_error :: "path \<Rightarrow> py_error option"
  subprocess_run :: "string list \<Rightarrow> (string \<rightharpoonup> string) \<Rightarrow> filesystem
                       \<Rightarrow> proc_outcome \<times> filesystem"
  json_loads :: "bytes \<Rightarrow> py_error + pyval"
  str_float :: "'f \<Rightarrow> string"
  py_repr :: "string \<Rightarrow> string"
  signals_repr :: "int \<Rightarrow> string option"

text \<open>The form fields of a request; \<open>form_file\<close> is what \<^verbatim>\<open>file.read()\<close> gives.\<close>

record 'f request =
  form_file :: bytes
  form_language :: "string option"
  form_prompt :: "string option"
  form_response_format :: "string option"
  form_temperature :: 'f

subsection \<open>The parts of \<^verbatim>\<open>os.path\<close> the module uses (posixpath)\<close>

text \<open>\<^verbatim>\<open>s.rfind(c)\<close>: the highest index of \<open>c\<close> in \<open>s\<close>, or \<open>-1\<close>.\<close>

definition rfind :: "char \<Rightarrow> string \<Rightarrow> int" where
  "rfind c s =
     (if c \<in> set s
      then int (length s) - 1 - int (length (takeWhile (\<lambda>x. x \<noteq> c) (rev s)))
      else - 1)"

text \<open>
  \<^verbatim>\<open>join(a, b)\<close>: an absolute \<open>b\<close> replaces \<open>a\<close>; otherwise the two are put together with
  one separator, unless \<open>a\<close> is empty or already ends with it.
\<close>

definition os_path_join :: "path \<Rightarrow> path \<Rightarrow> path" where
  "os_path_join a b =
     (if b \<noteq> [] \<and> hd b = CHR ''/'' then b
      else if a = [] \<or> last a = CHR ''/'' then a @ b
      else a @ ''/'' @ b)"

text \<open>\<^verbatim>\<open>basename(p)\<close> is \<^verbatim>\<open>p[p.rfind('/') + 1:]\<close>.\<close>

definition os_path_basename :: "path \<Rightarrow> path" where
  "os_path_basename p = drop (nat (rfind CHR ''/'' p + 1)) p"

text \<open>
  The loop of \<^verbatim>\<open>genericpath._splitext\<close> over \<^verbatim>\<open>p[sepIndex + 1 : dotIndex]\<close>: it
  returns at the first character that is not a dot, and falls through when there is none.
\<close>

fun has_non_dot :: "string \<Rightarrow> bool" where
  "has_non_dot [] = False"
| "has_non_dot (c # cs) = (if c \<noteq> CHR ''.'' then True else has_non_dot cs)"

definition os_path_splitext :: "path \<Rightarrow> path \<times> string" where
  "os_path_splitext p =
     (let sepIndex = rfind CHR ''/'' p;
          dotIndex = rfind CHR ''.'' p
      in if dotIndex > sepIndex \<and>
            has_non_dot (take (nat (dotIndex - (sepIndex + 1))) (drop (nat (sepIndex + 1)) p))
         then (take (nat dotIndex) p, drop (nat dotIndex) p)
         else (p, []))"

subsection \<open>Section 1 of the module: configuration\<close>

definition VENV_PYTHON :: string where
  "VENV_PYTHON = ''/usr/local/lib/whisper/bin/python''"

definition WHISPER_SCRIPT :: string where
  "WHISPER_SCRIPT = ''/usr/local/lib/whisper/bin/whisper''"

text \<open>\<^verbatim>\<open>os.environ.get(key, default)\<close>.\<close>

definition environ_get :: "'f platform \<Rightarrow> string \<Rightarrow> string \<Rightarrow> string" where
  "environ_get P key dflt = (case os_environ P key of None \<Rightarrow> dflt | Some v \<Rightarrow> v)"

definition XDG_CACHE_HOME :: "'f platform \<Rightarrow> path" where
  "XDG_CACHE_HOME P = environ_get P ''XDG_CACHE_HOME'' ''/opt/ai/models/speech''"

definition MODEL_CACHE_DIR :: "'f platform \<Rightarrow> path" where
  "MODEL_CACHE_DIR P = os_path_join (XDG_CACHE_HOME P) ''whisper''"

subsection \<open>Section 2 of the module: model loading\<close>

definition model_name :: "'f platform \<Rightarrow> string" where
  "model_name P = environ_get P ''WHISPER_MODEL'' ''medium''"

text \<open>The \<^verbatim>\<open>try\<close>/\<^verbatim>\<open>except\<close> around \<^verbatim>\<open>whisper.load_model\<close>: any failure leaves \<open>None\<close>.\<close>

definition whisper_model :: "'f platform \<Rightarrow> 'f engine option" where
  "whisper_model P =
     (case load_model P (model_name P) (MODEL_CACHE_DIR P) of
        Inl e \<Rightarrow> None
      | Inr m \<Rightarrow> Some m)"

subsection \<open>Library operations on the world\<close>

definition log_event :: "'f event \<Rightarrow> 'f world \<Rightarrow> 'f world" where
  "log_event ev w = w\<lparr>events := events w @ [ev]\<rparr>"

text \<open>\<^verbatim>\<open>bool(x)\<close> for an \<^verbatim>\<open>Optional[str]\<close>: \<^verbatim>\<open>None\<close> and the empty string are false.\<close>

fun truthy :: "string option \<Rightarrow> bool" where
  "truthy None = False"
| "truthy (Some s) = (s \<noteq> [])"

text \<open>
  \<^verbatim>\<open>with tempfile.NamedTemporaryFile(delete=False, suffix=sfx, dir=d) as t\<close>: the file
  exists, empty, as soon as the object does, and closing it does not delete it.
\<close>

definition named_temporary_file ::
  "'f platform \<Rightarrow> path option \<Rightarrow> string \<Rightarrow> 'f world \<Rightarrow> (py_error + path) \<times> 'f world" where
  "named_temporary_file P d sfx w =
     (case mkstemp P d sfx (files w) of
        Inl e \<Rightarrow> (Inl e, w)
      | Inr name \<Rightarrow> (Inr name, w\<lparr>files := (files w)(name \<mapsto> [])\<rparr>))"

definition file_write ::
  "'f platform \<Rightarrow> path \<Rightarrow> bytes \<Rightarrow> 'f world \<Rightarrow> (py_error + unit) \<times> 'f world" where
  "file_write P name data w =
     (case write_error P name data of
        None \<Rightarrow> (Inr (), w\<lparr>files := (files w)(name \<mapsto> data)\<rparr>)
      | Some (e, written) \<Rightarrow> (Inl e, w\<lparr>files := (files w)(name \<mapsto> written)\<rparr>))"

definition os_path_exists :: "'f world \<Rightarrow> path \<Rightarrow> bool" where
  "os_path_exists w p = (files w p \<noteq> None)"

definition os_remove :: "'f platform \<Rightarrow> path \<Rightarrow> 'f world \<Rightarrow> (py_error + unit) \<times> 'f world" where
  "os_remove P p w =
     (case files w p of
        None \<Rightarrow> (Inl (OSError (''[Errno 2] No such file or directory: '' @ py_repr P p)), w)
      | Some c \<Rightarrow>
          (case remove_error P p of
             Some e \<Rightarrow> (Inl e, w)
           | None \<Rightarrow> (Inr (), w\<lparr>files := (files w)(p := None)\<rparr>)))"

text \<open>The statement \<^verbatim>\<open>if p and os.path.exists(p): os.remove(p)\<close> of both \<^verbatim>\<open>finally\<close> blocks.\<close>

definition remove_if_exists ::
  "'f platform \<Rightarrow> path option \<Rightarrow> 'f world \<Rightarrow> (py_error + unit) \<times> 'f world" where
  "remove_if_exists P po w =
     (case po of
        None \<Rightarrow> (Inr (), w)
      | Some p \<Rightarrow> if truthy po \<and> os_path_exists w p then os_remove P p w else (Inr (), w))"

text \<open>\<^verbatim>\<open>model_lock.acquire(blocking=False)\<close> and \<^verbatim>\<open>model_lock.release()\<close>.\<close>

definition lock_acquire_nonblocking :: "'f world \<Rightarrow> bool \<times> 'f world" where
  "lock_acquire_nonblocking w =
     (if lock_held w then (False, log_event (LockAcquire False) w)
      else (True, log_event (LockAcquire True) (w\<lparr>lock_held := True\<rparr>)))"

definition lock_release :: "'f world \<Rightarrow> (py_error + unit) \<times> 'f world" where
  "lock_release w =
     (if lock_held w then (Inr (), log_event LockRelease (w\<lparr>lock_held := False\<rparr>))
      else (Inl (RuntimeError ''release unlocked lock''), w))"

text \<open>A string between single quotes, as Python's messages print a name or a command.\<close>

definition quoted :: "string \<Rightarrow> string" where
  "quoted s = [CHR 0x27] @ s @ [CHR 0x27]"

text \<open>
  \<^verbatim>\<open>res["text"]\<close>: a dict is looked up and a missing key is a \<^verbatim>\<open>KeyError\<close>; a list or
  a string takes no string index, and the other values take no index at all.
\<close>

definition not_subscriptable :: "string \<Rightarrow> py_error" where
  "not_subscriptable ty = TypeError (quoted ty @ '' object is not subscriptable'')"

fun subscript :: "pyval \<Rightarrow> string \<Rightarrow> py_error + pyval" where
  "subscript (PDict kvs) k = (case map_of kvs k of None \<Rightarrow> Inl (KeyError k) | Some v \<Rightarrow> Inr v)"
| "subscript (PList xs) k = Inl (TypeError ''list indices must be integers or slices, not str'')"
| "subscript (PStr s) k = Inl (TypeError (''string indices must be integers, not '' @ quoted ''str''))"
| "subscript PNone k = Inl (not_subscriptable ''NoneType'')"
| "subscript (PBool b) k = Inl (not_subscriptable ''bool'')"
| "subscript (PInt n) k = Inl (not_subscriptable ''int'')"
| "subscript (PFloat x) k = Inl (not_subscriptable ''float'')"

subsection \<open>\<^verbatim>\<open>str(e)\<close> of an exception\<close>

text \<open>Decimal digits of a number, as \<^verbatim>\<open>%d\<close> prints them.\<close>

function str_nat :: "nat \<Rightarrow> string" where
  "str_nat n =
     (if n < 10 then [char_of (48 + n)]
      else str_nat (n div 10) @ [char_of (48 + n mod 10)])"
  by pat_completeness auto
termination
  by (relation "measure id") auto

definition str_int :: "int \<Rightarrow> string" where
  "str_int i = (if i < 0 then ''-'' @ str_nat (nat (- i)) else str_nat (nat i))"

text \<open>\<^verbatim>\<open>sep.join(xs)\<close>.\<close>

fun str_join :: "string \<Rightarrow> string list \<Rightarrow> string" where
  "str_join sep [] = []"
| "str_join sep [x] = x"
| "str_join sep (x # y # ys) = x @ sep @ str_join sep (y # ys)"

text \<open>\<^verbatim>\<open>str\<close> of a list of strings: the \<^verbatim>\<open>repr\<close> of each, between brackets.\<close>

definition str_list :: "'f platform \<Rightarrow> string list \<Rightarrow> string" where
  "str_list P xs = ''['' @ str_join '', '' (map (py_repr P) xs) @ '']''"

text \<open>
  \<^verbatim>\<open>subprocess.CalledProcessError.__str__\<close>: the command and the return code (or the
  signal, for a negative return code). The captured output is not part of it.
\<close>

definition str_called_process_error :: "'f platform \<Rightarrow> int \<Rightarrow> string list \<Rightarrow> string" where
  "str_called_process_error P returncode cmd =
     (if returncode \<noteq> 0 \<and> returncode < 0 then
        (case signals_repr P (- returncode) of
           Some sig \<Rightarrow> ''Command '' @ quoted (str_list P cmd) @ '' died with '' @ sig @ ''.''
         | None \<Rightarrow> ''Command '' @ quoted (str_list P cmd) @ '' died with unknown signal ''
                     @ str_int (- returncode) @ ''.'')
      else ''Command '' @ quoted (str_list P cmd) @ '' returned non-zero exit status ''
             @ str_int returncode @ ''.'')"

fun py_str :: "'f platform \<Rightarrow> py_error \<Rightarrow> string" where
  "py_str P (OSError msg) = msg"
| "py_str P (CalledProcessError returncode cmd out err) = str_called_process_error P returncode cmd"
| "py_str P (JSONDecodeError msg) = msg"
| "py_str P (KeyError k) = py_repr P k"
| "py_str P (TypeError msg) = msg"
| "py_str P (AttributeError msg) = msg"
| "py_str P (RuntimeError msg) = msg"
| "py_str P (EngineError msg) = msg"

subsection \<open>Section 3 of the module: the two executors\<close>

text \<open>
  The \<^verbatim>\<open>try\<close> block of \<^verbatim>\<open>run_transcription_fast_lane\<close>. It yields what the block
  returns or raises, the value of \<^verbatim>\<open>temp_path\<close> when the block is left, and the world.
  \<^verbatim>\<open>temp_path\<close> is assigned after \<^verbatim>\<open>t.write\<close>, so it is still \<^verbatim>\<open>None\<close> when the write
  raises.
\<close>

definition fast_lane_try ::
  "'f platform \<Rightarrow> bytes \<Rightarrow> string option \<Rightarrow> string option \<Rightarrow> 'f \<Rightarrow> 'f world
     \<Rightarrow> (py_error + pyval) \<times> path option \<times> 'f world" where
  "fast_lane_try P audio_bytes language prompt temp w =
     (case named_temporary_file P None [] w of
        (Inl e, w1) \<Rightarrow> (Inl e, None, w1)
      | (Inr name, w1) \<Rightarrow>
          (case file_write P name audio_bytes w1 of
             (Inl e, w2) \<Rightarrow> (Inl e, None, w2)
           | (Inr u, w2) \<Rightarrow>
               (case whisper_model P of
                  None \<Rightarrow>
                    (Inl (AttributeError (quoted ''NoneType'' @ '' object has no attribute ''
                                           @ quoted ''transcribe'')),
                     Some name, w2)
                | Some m \<Rightarrow>
                    (case m name language prompt temp (files w2) of
                       (r, fs) \<Rightarrow>
                         (r, Some name,
                          log_event (EngineCall name language prompt temp) (w2\<lparr>files := fs\<rparr>))))))"

text \<open>The whole function: the \<^verbatim>\<open>try\<close> block, then the \<^verbatim>\<open>finally\<close> block. An exception
  raised by the \<^verbatim>\<open>finally\<close> block replaces whatever the \<^verbatim>\<open>try\<close> block returned or
  raised.\<close>

definition run_transcription_fast_lane ::
  "'f platform \<Rightarrow> bytes \<Rightarrow> string option \<Rightarrow> string option \<Rightarrow> 'f \<Rightarrow> 'f world
     \<Rightarrow> (py_error + pyval) \<times> 'f world" where
  "run_transcription_fast_lane P audio_bytes language prompt temp w =
     (case fast_lane_try P audio_bytes language prompt temp (log_event EnterFastLane w) of
        (r, temp_path, w1) \<Rightarrow>
          (case remove_if_exists P temp_path w1 of
             (Inl e, w2) \<Rightarrow> (Inl e, w2)
           | (Inr u, w2) \<Rightarrow> (r, w2)))"

text \<open>\<^verbatim>\<open>if v: cmd.extend([flag, v])\<close>.\<close>

definition extend_if :: "string \<Rightarrow> string option \<Rightarrow> string list" where
  "extend_if flag v = (case v of None \<Rightarrow> [] | Some s \<Rightarrow> if truthy v then [flag, s] else [])"

definition build_cmd ::
  "'f platform \<Rightarrow> path \<Rightarrow> string option \<Rightarrow> string option \<Rightarrow> 'f \<Rightarrow> string list" where
  "build_cmd P t_audio language prompt temp =
     [VENV_PYTHON, WHISPER_SCRIPT, t_audio,
      ''--model'', model_name P,
      ''--output_format'', ''json'',
      ''--output_dir'', MODEL_CACHE_DIR P,
      ''--temperature'', str_float P temp]
     @ extend_if ''--language'' language
     @ extend_if ''--initial_prompt'' prompt"

text \<open>\<^verbatim>\<open>sub_env = os.environ.copy(); sub_env["WHISPER_CACHE_DIR"] = MODEL_CACHE_DIR\<close>.\<close>

definition sub_env :: "'f platform \<Rightarrow> string \<rightharpoonup> string" where
  "sub_env P = (os_environ P)(''WHISPER_CACHE_DIR'' \<mapsto> MODEL_CACHE_DIR P)"

text \<open>
  \<^verbatim>\<open>subprocess.run(cmd, check=True, capture_output=True, text=True, env=sub_env)\<close>:
  a worker that cannot be started raises, and so does a return code other than 0.
\<close>

definition subprocess_run_check ::
  "'f platform \<Rightarrow> string list \<Rightarrow> 'f world \<Rightarrow> (py_error + unit) \<times> 'f world" where
  "subprocess_run_check P cmd w =
     (case subprocess_run P cmd (sub_env P) (files w) of
        (SpawnError e, fs) \<Rightarrow> (Inl e, log_event (WorkerSpawn cmd) (w\<lparr>files := fs\<rparr>))
      | (Completed returncode out err, fs) \<Rightarrow>
          (if returncode \<noteq> 0 then Inl (CalledProcessError returncode cmd out err) else Inr (),
           log_event (WorkerSpawn cmd) (w\<lparr>files := fs\<rparr>)))"

text \<open>The output path of lines 116 and 117.\<close>

definition result_path :: "'f platform \<Rightarrow> path \<Rightarrow> path" where
  "result_path P t_audio =
     (case os_path_splitext (os_path_basename t_audio) of
        (f_base, ext) \<Rightarrow> os_path_join (MODEL_CACHE_DIR P) (f_base @ ''.json''))"

text \<open>\<^verbatim>\<open>with open(r_path, 'r') as f: data = json.load(f)\<close>.\<close>

definition load_json :: "'f platform \<Rightarrow> path \<Rightarrow> 'f world \<Rightarrow> py_error + pyval" where
  "load_json P r_path w =
     (case files w r_path of
        None \<Rightarrow> Inl (OSError (''[Errno 2] No such file or directory: '' @ py_repr P r_path))
      | Some content \<Rightarrow> json_loads P content)"

text \<open>
  The \<^verbatim>\<open>try\<close> block of \<^verbatim>\<open>run_transcription_slow_lane\<close>, with the values of \<^verbatim>\<open>t_audio\<close>
  and \<^verbatim>\<open>r_path\<close> when the block is left. \<^verbatim>\<open>r_path\<close> is assigned after the worker has
  returned with code 0.
\<close>

definition slow_lane_try ::
  "'f platform \<Rightarrow> bytes \<Rightarrow> string option \<Rightarrow> string option \<Rightarrow> 'f \<Rightarrow> 'f world
     \<Rightarrow> (py_error + pyval) \<times> path option \<times> path option \<times> 'f world" where
  "slow_lane_try P audio_bytes language prompt temp w =
     (case named_temporary_file P (Some (MODEL_CACHE_DIR P)) ''.wav'' w of
        (Inl e, w1) \<Rightarrow> (Inl e, None, None, w1)
      | (Inr name, w1) \<Rightarrow>
          (case file_write P name audio_bytes w1 of
             (Inl e, w2) \<Rightarrow> (Inl e, None, None, w2)
           | (Inr u, w2) \<Rightarrow>
               (case subprocess_run_check P (build_cmd P name language prompt temp) w2 of
                  (Inl e, w3) \<Rightarrow> (Inl e, Some name, None, w3)
                | (Inr u, w3) \<Rightarrow>
                    (load_json P (result_path P name) w3,
                     Some name, Some (result_path P name), w3))))"

text \<open>
  The whole function. The \<^verbatim>\<open>finally\<close> block has two statements: when the first raises,
  the second is not run.
\<close>

definition run_transcription_slow_lane ::
  "'f platform \<Rightarrow> bytes \<Rightarrow> string option \<Rightarrow> string option \<Rightarrow> 'f \<Rightarrow> 'f world
     \<Rightarrow> (py_error + pyval) \<times> 'f world" where
  "run_transcription_slow_lane P audio_bytes language prompt temp w =
     (case slow_lane_try P audio_bytes language prompt temp (log_event EnterSlowLane w) of
        (r, t_audio, r_path, w1) \<Rightarrow>
          (case remove_if_exists P t_audio w1 of
             (Inl e, w2) \<Rightarrow> (Inl e, w2)
           | (Inr u, w2) \<Rightarrow>
               (case remove_if_exists P r_path w2 of
                  (Inl e, w3) \<Rightarrow> (Inl e, w3)
                | (Inr u, w3) \<Rightarrow> (r, w3))))"

subsection \<open>The request handler\<close>

text \<open>
  Lines 139 to 147: the lane is chosen by one non-blocking attempt on the lock. The
  result is the value of \<^verbatim>\<open>res\<close>, or the exception that leaves the \<^verbatim>\<open>if\<close>.
\<close>

definition dispatch ::
  "'f platform \<Rightarrow> 'f request \<Rightarrow> 'f world \<Rightarrow> (py_error + pyval) \<times> 'f world" where
  "dispatch P req w =
     (case lock_acquire_nonblocking w of
        (True, w1) \<Rightarrow>
          (case run_transcription_fast_lane P (form_file req) (form_language req)
                  (form_prompt req) (form_temperature req) w1 of
             (r, w2) \<Rightarrow>
               (case lock_release w2 of
                  (Inl e, w3) \<Rightarrow> (Inl e, w3)
                | (Inr u, w3) \<Rightarrow> (r, w3)))
      | (False, w1) \<Rightarrow>
          run_transcription_slow_lane P (form_file req) (form_language req)
            (form_prompt req) (form_temperature req) w1)"

text \<open>
  \<^verbatim>\<open>create_transcription\<close>: the check of \<^verbatim>\<open>whisper_model\<close> is outside the \<^verbatim>\<open>try\<close>;
  every exception raised inside becomes an \<^verbatim>\<open>HTTPException\<close> with status 500 and
  \<^verbatim>\<open>str(e)\<close> as its detail.
\<close>

definition create_transcription ::
  "'f platform \<Rightarrow> 'f request \<Rightarrow> 'f world \<Rightarrow> (http_exception + pyval) \<times> 'f world" where
  "create_transcription P req w =
     (case whisper_model P of
        None \<Rightarrow> (Inl (HTTPException 500 ''Model not loaded.''), w)
      | Some m \<Rightarrow>
          (case dispatch P req w of
             (Inl e, w1) \<Rightarrow> (Inl (HTTPException 500 (py_str P e)), w1)
           | (Inr res, w1) \<Rightarrow>
               (if form_response_format req = Some ''text'' then
                  (case subscript res ''text'' of
                     Inl e \<Rightarrow> (Inl (HTTPException 500 (py_str P e)), w1)
                   | Inr v \<Rightarrow> (Inr v, w1))
                else (Inr res, w1))))"

subsection \<open>A concrete platform, for evaluating the model\<close>

text \<open>
  The temperature is written as its literal. The engine answers with the content of the
  file it is given; the worker writes the file \<open>/s/whisper/tmpx.json\<close> and returns the
  code 0; the staging directory is \<open>/s/whisper\<close>; no file operation fails.
\<close>

definition demo_engine :: "string engine" where
  "demo_engine name language prompt temp fs =
     (case fs name of
        None \<Rightarrow> (Inl (EngineError ''no audio''), fs)
      | Some c \<Rightarrow> (Inr (PDict [(''text'', PStr c), (''language'', PStr ''en'')]), fs))"

definition demo_worker ::
  "string list \<Rightarrow> (string \<rightharpoonup> string) \<Rightarrow> filesystem \<Rightarrow> proc_outcome \<times> filesystem" where
  "demo_worker cmd env fs = (Completed 0 [] [], fs(''/s/whisper/tmpx.json'' \<mapsto> ''J''))"

definition demo_json :: "bytes \<Rightarrow> py_error + pyval" where
  "demo_json c =
     (if c = ''J'' then Inr (PDict [(''text'', PStr ''hi'')])
      else Inl (JSONDecodeError ''Expecting value: line 1 column 1 (char 0)''))"

definition demo :: "string platform" where
  "demo =
     \<lparr> os_environ = [''XDG_CACHE_HOME'' \<mapsto> ''/s''],
       load_model = (\<lambda>name root. Inr demo_engine),
       mkstemp = (\<lambda>d sfx fs.
          Inr (os_path_join (case d of None \<Rightarrow> ''/tmp'' | Some x \<Rightarrow> x) (''tmpx'' @ sfx))),
       write_error = (\<lambda>p b. None),
       remove_error = (\<lambda>p. None),
       subprocess_run = demo_worker,
       json_loads = demo_json,
       str_float = (\<lambda>t. t),
       py_repr = quoted,
       signals_repr = (\<lambda>n. None) \<rparr>"

text \<open>The same platform with an engine that failed to load.\<close>

definition demo_unloaded :: "string platform" where
  "demo_unloaded = demo\<lparr>load_model := (\<lambda>name root. Inl (RuntimeError ''CUDA out of memory''))\<rparr>"

text \<open>The same platform with a worker that writes its output file, prints a diagnostic
  on stderr and returns the code 1.\<close>

definition failing_worker ::
  "string list \<Rightarrow> (string \<rightharpoonup> string) \<Rightarrow> filesystem \<Rightarrow> proc_outcome \<times> filesystem" where
  "failing_worker cmd env fs =
     (Completed 1 [] ''out of memory'', fs(''/s/whisper/tmpx.json'' \<mapsto> ''J''))"

definition demo_worker_fails :: "string platform" where
  "demo_worker_fails = demo\<lparr>subprocess_run := failing_worker\<rparr>"

text \<open>The same platform with a parser that rejects what the worker wrote.\<close>

definition demo_bad_json :: "string platform" where
  "demo_bad_json =
     demo\<lparr>json_loads :=
       (\<lambda>c. Inl (JSONDecodeError ''Expecting value: line 1 column 1 (char 0)''))\<rparr>"

text \<open>The same platform on a full disk: \<^verbatim>\<open>t.write\<close> raises and nothing reaches the file.\<close>

definition demo_disk_full :: "string platform" where
  "demo_disk_full =
     demo\<lparr>write_error := (\<lambda>p b. Some (OSError ''[Errno 28] No space left on device'', []))\<rparr>"

text \<open>The same platform where \<^verbatim>\<open>os.remove\<close> is refused.\<close>

definition demo_no_remove :: "string platform" where
  "demo_no_remove =
     demo\<lparr>remove_error := (\<lambda>p. Some (OSError ''[Errno 13] Permission denied''))\<rparr>"

definition idle_world :: "string world" where
  "idle_world = \<lparr> files = Map.empty, lock_held = False, events = [] \<rparr>"

definition busy_world :: "string world" where
  "busy_world = \<lparr> files = Map.empty, lock_held = True, events = [] \<rparr>"

definition demo_request :: "string request" where
  "demo_request =
     \<lparr> form_file = ''abc'', form_language = Some [], form_prompt = Some ''names'',
       form_response_format = Some ''json'', form_temperature = ''0.0'' \<rparr>"

section \<open>Properties\<close>

subsection \<open>What the operations leave alone\<close>

lemmas demo_defs = demo_def demo_unloaded_def demo_worker_fails_def demo_disk_full_def
  demo_no_remove_def idle_world_def busy_world_def demo_request_def demo_engine_def
  demo_worker_def failing_worker_def demo_json_def

lemmas model_defs = create_transcription_def dispatch_def whisper_model_def
  run_transcription_fast_lane_def fast_lane_try_def run_transcription_slow_lane_def
  slow_lane_try_def named_temporary_file_def file_write_def remove_if_exists_def
  os_remove_def os_path_exists_def lock_acquire_nonblocking_def lock_release_def
  log_event_def subprocess_run_check_def load_json_def sub_env_def

lemmas path_defs = os_path_join_def MODEL_CACHE_DIR_def XDG_CACHE_HOME_def environ_get_def
  result_path_def os_path_basename_def os_path_splitext_def rfind_def

text \<open>No file operation touches the lock or the log.\<close>

lemma named_temporary_file_keeps:
  "named_temporary_file P d sfx w = (r, w1) \<Longrightarrow>
     lock_held w1 = lock_held w \<and> events w1 = events w"
  by (auto simp: named_temporary_file_def split: sum.splits)

lemma file_write_keeps:
  "file_write P name data w = (r, w1) \<Longrightarrow> lock_held w1 = lock_held w \<and> events w1 = events w"
  by (auto simp: file_write_def split: option.splits prod.splits)

lemma os_remove_keeps:
  "os_remove P p w = (r, w1) \<Longrightarrow> lock_held w1 = lock_held w \<and> events w1 = events w"
  by (auto simp: os_remove_def split: option.splits)

lemma remove_if_exists_keeps:
  "remove_if_exists P po w = (r, w1) \<Longrightarrow> lock_held w1 = lock_held w \<and> events w1 = events w"
  by (auto simp: remove_if_exists_def split: option.splits if_splits dest: os_remove_keeps)

lemma subprocess_run_check_keeps:
  "subprocess_run_check P cmd w = (r, w1) \<Longrightarrow>
     lock_held w1 = lock_held w \<and> events w1 = events w @ [WorkerSpawn cmd]"
  by (auto simp: subprocess_run_check_def log_event_def split: prod.splits proc_outcome.splits)

text \<open>The fast lane logs its entry and at most one engine call, the slow lane its entry
  and at most one worker; neither touches the lock.\<close>

lemma fast_lane_try_keeps:
  "fast_lane_try P a l p t w = (r, tp, w1) \<Longrightarrow>
     lock_held w1 = lock_held w \<and>
     (events w1 = events w \<or> (\<exists>name. events w1 = events w @ [EngineCall name l p t]))"
  unfolding fast_lane_try_def
  by (auto simp: log_event_def split: prod.splits sum.splits option.splits
      dest!: named_temporary_file_keeps file_write_keeps)

lemma run_transcription_fast_lane_keeps:
  "run_transcription_fast_lane P a l p t w = (r, w1) \<Longrightarrow>
     lock_held w1 = lock_held w \<and>
     (events w1 = events w @ [EnterFastLane] \<or>
      (\<exists>name. events w1 = events w @ [EnterFastLane, EngineCall name l p t]))"
  unfolding run_transcription_fast_lane_def
  by (auto simp: log_event_def split: prod.splits sum.splits
      dest!: fast_lane_try_keeps remove_if_exists_keeps)

lemma slow_lane_try_keeps:
  "slow_lane_try P a l p t w = (r, ta, rp, w1) \<Longrightarrow>
     lock_held w1 = lock_held w \<and>
     (events w1 = events w \<or> (\<exists>cmd. events w1 = events w @ [WorkerSpawn cmd]))"
  unfolding slow_lane_try_def
  by (auto split: prod.splits sum.splits
      dest!: named_temporary_file_keeps file_write_keeps subprocess_run_check_keeps)

lemma run_transcription_slow_lane_keeps:
  "run_transcription_slow_lane P a l p t w = (r, w1) \<Longrightarrow>
     lock_held w1 = lock_held w \<and>
     (events w1 = events w @ [EnterSlowLane] \<or>
      (\<exists>cmd. events w1 = events w @ [EnterSlowLane, WorkerSpawn cmd]))"
  unfolding run_transcription_slow_lane_def
  by (auto simp: log_event_def split: prod.splits sum.splits
      dest!: slow_lane_try_keeps remove_if_exists_keeps)

lemma dispatch_ignores_response_format:
  "dispatch P (req\<lparr>form_response_format := rf\<rparr>) w = dispatch P req w"
  by (simp add: dispatch_def split: prod.splits bool.splits)

text \<open>The demonstration platform at work: an idle lock gives the fast lane, a held lock
  the slow lane.\<close>

lemma demo_engine_loaded: "whisper_model demo = Some demo_engine"
  by (simp add: whisper_model_def demo_def)

lemma demo_idle_run:
  "create_transcription demo (demo_request\<lparr>form_response_format := rf\<rparr>) idle_world
     = ((if rf = Some ''text'' then Inr (PStr ''abc'')
         else Inr (PDict [(''text'', PStr ''abc''), (''language'', PStr ''en'')])),
        \<lparr> files = Map.empty, lock_held = False,
          events = [LockAcquire True, EnterFastLane,
                    EngineCall ''/tmp/tmpx'' (Some []) (Some ''names'') ''0.0'', LockRelease] \<rparr>)"
  by (simp add: model_defs demo_defs os_path_join_def fun_eq_iff)

lemma demo_busy_dispatch:
  "dispatch demo (demo_request\<lparr>form_response_format := rf\<rparr>) busy_world
     = (Inr (PDict [(''text'', PStr ''hi'')]),
        \<lparr> files = Map.empty, lock_held = True,
          events = [LockAcquire False, EnterSlowLane,
                    WorkerSpawn (build_cmd demo ''/s/whisper/tmpx.wav'' (Some []) (Some ''names'')
                                   ''0.0'')] \<rparr>)"
  by (simp add: model_defs demo_defs path_defs fun_eq_iff)

subsection \<open>Paths\<close>

lemma rfind_absent: "c \<notin> set s \<Longrightarrow> rfind c s = - 1"
  by (simp add: rfind_def)

lemma rfind_last_occurrence:
  assumes "c \<notin> set ys"
  shows "rfind c (xs @ c # ys) = int (length xs)"
proof -
  have "\<And>x. x \<in> set (rev ys) \<Longrightarrow> x \<noteq> c"
    using assms by auto
  then have "takeWhile (\<lambda>x. x \<noteq> c) (rev ys @ c # rev xs)
               = rev ys @ takeWhile (\<lambda>x. x \<noteq> c) (c # rev xs)"
    by (rule takeWhile_append2)
  then show ?thesis
    by (simp add: rfind_def)
qed

lemma os_path_basename_no_sep: "CHR ''/'' \<notin> set x \<Longrightarrow> os_path_basename x = x"
  by (simp add: os_path_basename_def rfind_absent)

lemma os_path_basename_after_sep:
  assumes "CHR ''/'' \<notin> set x"
  shows "os_path_basename (d @ CHR ''/'' # x) = x"
proof -
  have "nat (rfind CHR ''/'' (d @ CHR ''/'' # x) + 1) = Suc (length d)"
    using assms by (simp add: rfind_last_occurrence)
  then show ?thesis
    by (simp add: os_path_basename_def)
qed

lemma os_path_basename_join:
  assumes "CHR ''/'' \<notin> set x"
  shows "os_path_basename (os_path_join d x) = x"
proof (cases "d = [] \<or> last d = CHR ''/''")
  case False
  then show ?thesis
    using assms by (cases x) (auto simp: os_path_join_def os_path_basename_after_sep)
next
  case True
  show ?thesis
  proof (cases "d = []")
    case True
    then show ?thesis
      using assms by (cases x) (auto simp: os_path_join_def os_path_basename_no_sep)
  next
    case False
    with True obtain d' where "d = d' @ [CHR ''/'']"
      by (metis append_butlast_last_id)
    then have "os_path_basename (d @ x) = x"
      using assms os_path_basename_after_sep [of x d'] by simp
    with True False show ?thesis
      using assms by (cases x) (auto simp: os_path_join_def)
  qed
qed

lemma os_path_splitext_wav:
  assumes "CHR ''/'' \<notin> set stem" and "has_non_dot stem"
  shows "os_path_splitext (stem @ ''.wav'') = (stem, ''.wav'')"
proof -
  have s: "rfind CHR ''/'' (stem @ ''.wav'') = - 1"
    using assms(1) by (simp add: rfind_absent)
  have d: "rfind CHR ''.'' (stem @ ''.wav'') = int (length stem)"
    using rfind_last_occurrence [of "CHR ''.''" "''wav''" stem] by simp
  show ?thesis
    using assms(2) by (simp add: os_path_splitext_def s d)
qed

lemma result_path_of_staged:
  assumes "CHR ''/'' \<notin> set stem" and "has_non_dot stem"
  shows "result_path P (os_path_join d (stem @ ''.wav''))
           = os_path_join (MODEL_CACHE_DIR P) (stem @ ''.json'')"
proof -
  have "CHR ''/'' \<notin> set (stem @ ''.wav'')"
    using assms(1) by simp
  then have "os_path_basename (os_path_join d (stem @ ''.wav'')) = stem @ ''.wav''"
    by (rule os_path_basename_join)
  then show ?thesis
    using assms by (simp add: result_path_def os_path_splitext_wav)
qed


lemma os_path_join_nonempty: "b \<noteq> [] \<Longrightarrow> os_path_join a b \<noteq> []"
  by (simp add: os_path_join_def)

lemma result_path_nonempty: "result_path P name \<noteq> []"
  by (simp add: result_path_def os_path_join_nonempty split: prod.splits)

subsection \<open>Cleanup and staging\<close>

text \<open>What the cleanup statement does to the files.\<close>

lemma remove_if_exists_removes:
  assumes "remove_error P p = None" and "p \<noteq> []"
  shows "remove_if_exists P (Some p) w = (Inr (), w\<lparr>files := (files w)(p := None)\<rparr>)"
proof (cases "files w p")
  case None
  then have "(files w)(p := None) = files w"
    by (simp add: fun_eq_iff)
  with None assms show ?thesis
    by (simp add: remove_if_exists_def os_path_exists_def)
next
  case (Some c)
  with assms show ?thesis
    by (simp add: remove_if_exists_def os_path_exists_def os_remove_def)
qed

lemma remove_if_exists_unassigned: "remove_if_exists P None w = (Inr (), w)"
  by (simp add: remove_if_exists_def)

lemma remove_if_exists_fails:
  assumes "remove_error P p = Some e" and "p \<noteq> []" and "files w p = Some c"
  shows "remove_if_exists P (Some p) w = (Inl e, w)"
  using assms by (simp add: remove_if_exists_def os_path_exists_def os_remove_def)

text \<open>The \<^verbatim>\<open>try\<close> blocks once the staging file is written.\<close>

lemma fast_lane_try_staged:
  assumes "mkstemp P None [] (files w) = Inr name"
    and "write_error P name audio = None"
    and "whisper_model P = Some m"
  shows "fast_lane_try P audio language prompt temp w
           = (fst (m name language prompt temp ((files w)(name \<mapsto> audio))), Some name,
              w\<lparr>files := snd (m name language prompt temp ((files w)(name \<mapsto> audio))),
                events := events w @ [EngineCall name language prompt temp]\<rparr>)"
  using assms
  by (simp add: fast_lane_try_def named_temporary_file_def file_write_def log_event_def
      split: prod.splits)

lemma slow_lane_try_staged:
  assumes "mkstemp P (Some (MODEL_CACHE_DIR P)) ''.wav'' (files w) = Inr name"
    and "write_error P name audio = None"
    and "subprocess_run P (build_cmd P name language prompt temp) (sub_env P)
           ((files w)(name \<mapsto> audio)) = (po, fs)"
  shows "slow_lane_try P audio language prompt temp w
           = (case po of
                SpawnError e \<Rightarrow>
                  (Inl e, Some name, None,
                   w\<lparr>files := fs,
                     events := events w @ [WorkerSpawn (build_cmd P name language prompt temp)]\<rparr>)
              | Completed rc out err \<Rightarrow>
                  if rc \<noteq> 0
                  then (Inl (CalledProcessError rc (build_cmd P name language prompt temp) out err),
                        Some name, None,
                        w\<lparr>files := fs,
                          events := events w @
                            [WorkerSpawn (build_cmd P name language prompt temp)]\<rparr>)
                  else (load_json P (result_path P name) (w\<lparr>files := fs\<rparr>),
                        Some name, Some (result_path P name),
                        w\<lparr>files := fs,
                          events := events w @
                            [WorkerSpawn (build_cmd P name language prompt temp)]\<rparr>))"
  using assms
  by (simp add: slow_lane_try_def named_temporary_file_def file_write_def log_event_def
      subprocess_run_check_def load_json_def split: proc_outcome.splits)

lemma remove_if_exists_never_fails:
  "\<forall>p. remove_error P p = None \<Longrightarrow> fst (remove_if_exists P po w) = Inr ()"
  by (simp add: remove_if_exists_def os_remove_def os_path_exists_def split: option.splits)

text \<open>The executors once the staging file is written and its removal is not refused.\<close>

lemma run_transcription_fast_lane_staged:
  assumes "mkstemp P None [] (files w) = Inr name" and "name \<noteq> []"
    and "write_error P name audio = None"
    and "whisper_model P = Some m"
    and "remove_error P name = None"
  shows "run_transcription_fast_lane P audio language prompt temp w
           = (fst (m name language prompt temp ((files w)(name \<mapsto> audio))),
              w\<lparr>files := (snd (m name language prompt temp ((files w)(name \<mapsto> audio))))
                          (name := None),
                events := events w @ [EnterFastLane, EngineCall name language prompt temp]\<rparr>)"
proof -
  have "mkstemp P None [] (files (log_event EnterFastLane w)) = Inr name"
    using assms(1) by (simp add: log_event_def)
  from fast_lane_try_staged [OF this assms(3) assms(4)] assms(2) assms(5) show ?thesis
    by (simp add: run_transcription_fast_lane_def remove_if_exists_removes log_event_def)
qed

lemma run_transcription_slow_lane_worker_failed:
  assumes "mkstemp P (Some (MODEL_CACHE_DIR P)) ''.wav'' (files w) = Inr name" and "name \<noteq> []"
    and "write_error P name audio = None"
    and "subprocess_run P (build_cmd P name language prompt temp) (sub_env P)
           ((files w)(name \<mapsto> audio)) = (Completed rc out err, fs)"
    and "rc \<noteq> 0"
    and "remove_error P name = None"
  shows "run_transcription_slow_lane P audio language prompt temp w
           = (Inl (CalledProcessError rc (build_cmd P name language prompt temp) out err),
              w\<lparr>files := fs(name := None),
                events := events w @
                  [EnterSlowLane, WorkerSpawn (build_cmd P name language prompt temp)]\<rparr>)"
proof -
  have "mkstemp P (Some (MODEL_CACHE_DIR P)) ''.wav'' (files (log_event EnterSlowLane w)) = Inr name"
    and "subprocess_run P (build_cmd P name language prompt temp) (sub_env P)
           ((files (log_event EnterSlowLane w))(name \<mapsto> audio)) = (Completed rc out err, fs)"
    using assms(1,4) by (simp_all add: log_event_def)
  from slow_lane_try_staged [OF this(1) assms(3) this(2)] assms(2,5,6) show ?thesis
    by (simp add: run_transcription_slow_lane_def remove_if_exists_removes
        remove_if_exists_unassigned log_event_def)
qed

lemma run_transcription_slow_lane_worker_done:
  assumes "mkstemp P (Some (MODEL_CACHE_DIR P)) ''.wav'' (files w) = Inr name" and "name \<noteq> []"
    and "write_error P name audio = None"
    and "subprocess_run P (build_cmd P name language prompt temp) (sub_env P)
           ((files w)(name \<mapsto> audio)) = (Completed 0 out err, fs)"
    and "remove_error P name = None"
    and "remove_error P (result_path P name) = None"
  shows "run_transcription_slow_lane P audio language prompt temp w
           = (load_json P (result_path P name) (w\<lparr>files := fs\<rparr>),
              w\<lparr>files := fs(name := None, result_path P name := None),
                events := events w @
                  [EnterSlowLane, WorkerSpawn (build_cmd P name language prompt temp)]\<rparr>)"
proof -
  have "mkstemp P (Some (MODEL_CACHE_DIR P)) ''.wav'' (files (log_event EnterSlowLane w)) = Inr name"
    and "subprocess_run P (build_cmd P name language prompt temp) (sub_env P)
           ((files (log_event EnterSlowLane w))(name \<mapsto> audio)) = (Completed 0 out err, fs)"
    using assms(1,4) by (simp_all add: log_event_def)
  from slow_lane_try_staged [OF this(1) assms(3) this(2)] assms(2,5,6) show ?thesis
    by (simp add: run_transcription_slow_lane_def remove_if_exists_removes
        result_path_nonempty log_event_def load_json_def)
qed

lemma run_transcription_slow_lane_spawn_failed:
  assumes "mkstemp P (Some (MODEL_CACHE_DIR P)) ''.wav'' (files w) = Inr name" and "name \<noteq> []"
    and "write_error P name audio = None"
    and "subprocess_run P (build_cmd P name language prompt temp) (sub_env P)
           ((files w)(name \<mapsto> audio)) = (SpawnError e, fs)"
    and "remove_error P name = None"
  shows "run_transcription_slow_lane P audio language prompt temp w
           = (Inl e,
              w\<lparr>files := fs(name := None),
                events := events w @
                  [EnterSlowLane, WorkerSpawn (build_cmd P name language prompt temp)]\<rparr>)"
proof -
  have "mkstemp P (Some (MODEL_CACHE_DIR P)) ''.wav'' (files (log_event EnterSlowLane w)) = Inr name"
    and "subprocess_run P (build_cmd P name language prompt temp) (sub_env P)
           ((files (log_event EnterSlowLane w))(name \<mapsto> audio)) = (SpawnError e, fs)"
    using assms(1,4) by (simp_all add: log_event_def)
  from slow_lane_try_staged [OF this(1) assms(3) this(2)] assms(2,5) show ?thesis
    by (simp add: run_transcription_slow_lane_def remove_if_exists_removes
        remove_if_exists_unassigned log_event_def)
qed

lemma fast_lane_calls_engine:
  assumes "mkstemp P None [] (files w) = Inr name"
    and "write_error P name audio = None"
    and "whisper_model P = Some m"
  shows "events (snd (run_transcription_fast_lane P audio language prompt temp w))
           = events w @ [EnterFastLane, EngineCall name language prompt temp]"
proof -
  have "mkstemp P None [] (files (log_event EnterFastLane w)) = Inr name"
    using assms(1) by (simp add: log_event_def)
  from fast_lane_try_staged [OF this assms(2) assms(3)] show ?thesis
    by (auto simp: run_transcription_fast_lane_def log_event_def
        split: prod.splits sum.splits dest!: remove_if_exists_keeps)
qed

lemma slow_lane_runs_built_command:
  assumes "mkstemp P (Some (MODEL_CACHE_DIR P)) ''.wav'' (files w) = Inr name"
    and "write_error P name audio = None"
  shows "events (snd (run_transcription_slow_lane P audio language prompt temp w))
           = events w @ [EnterSlowLane, WorkerSpawn (build_cmd P name language prompt temp)]"
proof -
  obtain po fs where run: "subprocess_run P (build_cmd P name language prompt temp) (sub_env P)
      ((files (log_event EnterSlowLane w))(name \<mapsto> audio)) = (po, fs)"
    by (cases "subprocess_run P (build_cmd P name language prompt temp) (sub_env P)
      ((files (log_event EnterSlowLane w))(name \<mapsto> audio))") blast
  have "mkstemp P (Some (MODEL_CACHE_DIR P)) ''.wav'' (files (log_event EnterSlowLane w)) = Inr name"
    using assms(1) by (simp add: log_event_def)
  from slow_lane_try_staged [OF this assms(2) run] show ?thesis
    by (auto simp: run_transcription_slow_lane_def log_event_def
        split: prod.splits sum.splits proc_outcome.splits if_splits
        dest!: remove_if_exists_keeps)
qed

subsection \<open>The dispatcher\<close>

text \<open>
  Claim C1. With the engine loaded, a request that finds the lock free takes it, runs
  the fast lane and releases it once, as the last thing it does; the lock is free again
  afterwards. A request that finds the lock held runs the slow lane, and the lock is
  still held afterwards: the failed attempt is the only lock operation of the request.
  The log of the request is one of the four lists below, whatever the executors return
  or raise.
\<close>

theorem permit_decides_lane:
  assumes "whisper_model P = Some m" and "create_transcription P req w = (r, w')"
  shows "(\<not> lock_held w \<longrightarrow>
            \<not> lock_held w' \<and>
            (events w' = events w @ [LockAcquire True, EnterFastLane, LockRelease] \<or>
             (\<exists>name. events w' = events w @
                [LockAcquire True, EnterFastLane,
                 EngineCall name (form_language req) (form_prompt req) (form_temperature req),
                 LockRelease]))) \<and>
         (lock_held w \<longrightarrow>
            lock_held w' \<and>
            (events w' = events w @ [LockAcquire False, EnterSlowLane] \<or>
             (\<exists>cmd. events w' = events w @ [LockAcquire False, EnterSlowLane, WorkerSpawn cmd])))"
proof (cases "lock_held w")
  case True
  obtain r1 where d: "dispatch P req w = (r1, w')"
    using assms by (auto simp: create_transcription_def split: prod.splits sum.splits if_splits)
  from d True have "run_transcription_slow_lane P (form_file req) (form_language req)
      (form_prompt req) (form_temperature req) (log_event (LockAcquire False) w) = (r1, w')"
    by (simp add: dispatch_def lock_acquire_nonblocking_def)
  from run_transcription_slow_lane_keeps [OF this] True show ?thesis
    by (auto simp: log_event_def)
next
  case False
  obtain r1 where d: "dispatch P req w = (r1, w')"
    using assms by (auto simp: create_transcription_def split: prod.splits sum.splits if_splits)
  obtain r2 w2 where f: "run_transcription_fast_lane P (form_file req) (form_language req)
      (form_prompt req) (form_temperature req)
      (log_event (LockAcquire True) (w\<lparr>lock_held := True\<rparr>)) = (r2, w2)"
    by (cases "run_transcription_fast_lane P (form_file req) (form_language req)
      (form_prompt req) (form_temperature req)
      (log_event (LockAcquire True) (w\<lparr>lock_held := True\<rparr>))") blast
  from run_transcription_fast_lane_keeps [OF f]
  have k: "lock_held w2"
    "events w2 = events w @ [LockAcquire True, EnterFastLane] \<or>
     (\<exists>name. events w2 = events w @ [LockAcquire True, EnterFastLane,
        EngineCall name (form_language req) (form_prompt req) (form_temperature req)])"
    by (auto simp: log_event_def)
  from d False f k(1) have "w' = log_event LockRelease (w2\<lparr>lock_held := False\<rparr>)"
    by (simp add: dispatch_def lock_acquire_nonblocking_def lock_release_def)
  with k False show ?thesis
    by (auto simp: log_event_def)
qed

theorem permit_decides_lane_witness:
  "whisper_model demo = Some demo_engine \<and>
   \<not> lock_held idle_world \<and>
   events (snd (create_transcription demo demo_request idle_world))
     = [LockAcquire True, EnterFastLane,
        EngineCall ''/tmp/tmpx'' (Some []) (Some ''names'') ''0.0'', LockRelease] \<and>
   \<not> lock_held (snd (create_transcription demo demo_request idle_world)) \<and>
   lock_held busy_world \<and>
   events (snd (create_transcription demo demo_request busy_world))
     = [LockAcquire False, EnterSlowLane,
        WorkerSpawn (build_cmd demo ''/s/whisper/tmpx.wav'' (Some []) (Some ''names'') ''0.0'')] \<and>
   lock_held (snd (create_transcription demo demo_request busy_world))"
proof -
  obtain r1 w1 where a: "create_transcription demo demo_request idle_world = (r1, w1)"
    by (cases "create_transcription demo demo_request idle_world") blast
  obtain r2 w2 where b: "create_transcription demo demo_request busy_world = (r2, w2)"
    by (cases "create_transcription demo demo_request busy_world") blast
  have i: "\<not> lock_held idle_world" "events idle_world = []"
    by (simp_all add: idle_world_def)
  have j: "lock_held busy_world" "events busy_world = []"
    by (simp_all add: busy_world_def)
  have e1: "EngineCall ''/tmp/tmpx'' (Some []) (Some ''names'') ''0.0'' \<in> set (events w1)"
    using a demo_idle_run [of "Some ''json''"] by (auto simp: demo_request_def)
  have e2: "WorkerSpawn (build_cmd demo ''/s/whisper/tmpx.wav'' (Some []) (Some ''names'') ''0.0'')
              \<in> set (events w2)"
    using b demo_busy_dispatch [of "Some ''json''"]
    by (auto simp: create_transcription_def demo_engine_loaded demo_request_def)
  show ?thesis
    using permit_decides_lane [OF demo_engine_loaded a] permit_decides_lane [OF demo_engine_loaded b]
      a b i j e1 e2 demo_engine_loaded
    by (auto simp: demo_request_def)
qed

text \<open>
  Claim C2. When the engine did not load, the handler raises the error "Model not
  loaded." at once: the world it returns is the world it was given, so the lock has not
  been tried, no file has been written and no worker has been started.
\<close>

theorem engine_absent_fails_at_once:
  "whisper_model P = None \<Longrightarrow>
     create_transcription P req w = (Inl (HTTPException 500 ''Model not loaded.''), w)"
  by (simp add: create_transcription_def)

theorem engine_absent_fails_at_once_witness:
  "whisper_model demo_unloaded = None \<and>
   create_transcription demo_unloaded demo_request busy_world
     = (Inl (HTTPException 500 ''Model not loaded.''), busy_world)"
proof -
  have h: "whisper_model demo_unloaded = None"
    by (simp add: whisper_model_def demo_unloaded_def demo_def)
  show ?thesis
    using h engine_absent_fails_at_once [OF h, of demo_request busy_world] by simp
qed

subsection \<open>The shape of the response\<close>

text \<open>
  Claim C7. When a request with \<^verbatim>\<open>response_format=json\<close> is answered with a result
  that has a \<open>text\<close> entry, the same request with \<^verbatim>\<open>response_format=text\<close>, on the same
  platform and in the same world, is answered with exactly that entry, and leaves the
  same world behind.
\<close>

theorem text_response_is_text_field_of_json_response:
  assumes "create_transcription P (req\<lparr>form_response_format := Some ''json''\<rparr>) w = (Inr res, w1)"
    and "subscript res ''text'' = Inr v"
  shows "create_transcription P (req\<lparr>form_response_format := Some ''text''\<rparr>) w = (Inr v, w1)"
  using assms
  by (auto simp: create_transcription_def dispatch_ignores_response_format
      split: option.splits prod.splits sum.splits)

theorem text_response_is_text_field_of_json_response_witness:
  "create_transcription demo (demo_request\<lparr>form_response_format := Some ''json''\<rparr>) idle_world
     = (Inr (PDict [(''text'', PStr ''abc''), (''language'', PStr ''en'')]),
        \<lparr> files = Map.empty, lock_held = False,
          events = [LockAcquire True, EnterFastLane,
                    EngineCall ''/tmp/tmpx'' (Some []) (Some ''names'') ''0.0'', LockRelease] \<rparr>) \<and>
   subscript (PDict [(''text'', PStr ''abc''), (''language'', PStr ''en'')]) ''text''
     = Inr (PStr ''abc'') \<and>
   create_transcription demo (demo_request\<lparr>form_response_format := Some ''text''\<rparr>) idle_world
     = (Inr (PStr ''abc''),
        \<lparr> files = Map.empty, lock_held = False,
          events = [LockAcquire True, EnterFastLane,
                    EngineCall ''/tmp/tmpx'' (Some []) (Some ''names'') ''0.0'', LockRelease] \<rparr>)"
proof -
  have a: "create_transcription demo (demo_request\<lparr>form_response_format := Some ''json''\<rparr>) idle_world
     = (Inr (PDict [(''text'', PStr ''abc''), (''language'', PStr ''en'')]),
        \<lparr> files = Map.empty, lock_held = False,
          events = [LockAcquire True, EnterFastLane,
                    EngineCall ''/tmp/tmpx'' (Some []) (Some ''names'') ''0.0'', LockRelease] \<rparr>)"
    by (simp add: demo_idle_run)
  have b: "subscript (PDict [(''text'', PStr ''abc''), (''language'', PStr ''en'')]) ''text''
     = Inr (PStr ''abc'')"
    by simp
  show ?thesis
    using a b text_response_is_text_field_of_json_response [OF a b] by simp
qed

text \<open>
  Claim C10. Let the chosen lane return the result \<open>res\<close>. For every
  \<^verbatim>\<open>response_format\<close> other than the string \<open>text\<close> (an unknown format and a missing
  one included) the handler returns \<open>res\<close> itself. For \<open>text\<close> it returns
  \<^verbatim>\<open>res["text"]\<close>, and when \<open>res\<close> is a dict without that key it raises the error 500
  whose detail is \<^verbatim>\<open>str(KeyError('text'))\<close>.
\<close>

theorem response_format_selects_shape:
  assumes "whisper_model P = Some m" and "dispatch P req w = (Inr res, w1)"
  shows "(form_response_format req \<noteq> Some ''text'' \<longrightarrow>
            create_transcription P req w = (Inr res, w1)) \<and>
         (form_response_format req = Some ''text'' \<longrightarrow>
            (\<forall>v. subscript res ''text'' = Inr v \<longrightarrow>
                 create_transcription P req w = (Inr v, w1)) \<and>
            (\<forall>kvs. res = PDict kvs \<and> map_of kvs ''text'' = None \<longrightarrow>
                 create_transcription P req w
                   = (Inl (HTTPException 500 (py_repr P ''text'')), w1)))"
  using assms by (auto simp: create_transcription_def)

theorem response_format_selects_shape_witness:
  "whisper_model demo = Some demo_engine \<and>
   dispatch demo (demo_request\<lparr>form_response_format := Some ''srt''\<rparr>) busy_world
     = (Inr (PDict [(''text'', PStr ''hi'')]),
        \<lparr> files = Map.empty, lock_held = True,
          events = [LockAcquire False, EnterSlowLane,
                    WorkerSpawn (build_cmd demo ''/s/whisper/tmpx.wav'' (Some []) (Some ''names'')
                                   ''0.0'')] \<rparr>) \<and>
   create_transcription demo (demo_request\<lparr>form_response_format := Some ''srt''\<rparr>) busy_world
     = (Inr (PDict [(''text'', PStr ''hi'')]),
        \<lparr> files = Map.empty, lock_held = True,
          events = [LockAcquire False, EnterSlowLane,
                    WorkerSpawn (build_cmd demo ''/s/whisper/tmpx.wav'' (Some []) (Some ''names'')
                                   ''0.0'')] \<rparr>) \<and>
   create_transcription demo (demo_request\<lparr>form_response_format := Some ''text''\<rparr>) busy_world
     = (Inr (PStr ''hi''),
        \<lparr> files = Map.empty, lock_held = True,
          events = [LockAcquire False, EnterSlowLane,
                    WorkerSpawn (build_cmd demo ''/s/whisper/tmpx.wav'' (Some []) (Some ''names'')
                                   ''0.0'')] \<rparr>)"
  using demo_engine_loaded demo_busy_dispatch [of "Some ''srt''"]
    demo_busy_dispatch [of "Some ''text''"]
    response_format_selects_shape
      [OF demo_engine_loaded demo_busy_dispatch [of "Some ''srt''"]]
    response_format_selects_shape
      [OF demo_engine_loaded demo_busy_dispatch [of "Some ''text''"]]
  by (simp add: demo_request_def)

subsection \<open>The slow lane: command and output path\<close>

text \<open>
  Claim C6. Let the staging file be \<open>stem.wav\<close> in some directory, where \<open>stem\<close> has no
  separator and is not made of dots only (the names of \<^verbatim>\<open>tempfile\<close> are \<open>tmp\<close> followed
  by letters, digits and underscores). Then the output path the slow lane computes is
  \<open>stem.json\<close> in the staging directory; the worker is started on the staging file with
  \<^verbatim>\<open>--output_format json\<close> and \<^verbatim>\<open>--output_dir\<close> the staging directory; and when the worker
  returns 0 and has left a file at that path, the lane returns what \<^verbatim>\<open>json.load\<close> makes
  of its content.
\<close>

theorem output_path_follows_input_name:
  assumes "mkstemp P (Some (MODEL_CACHE_DIR P)) ''.wav'' (files w) = Inr name"
    and "name = os_path_join d (stem @ ''.wav'')"
    and "CHR ''/'' \<notin> set stem" and "has_non_dot stem"
    and "write_error P name audio = None"
    and "subprocess_run P (build_cmd P name language prompt temp) (sub_env P)
           ((files w)(name \<mapsto> audio)) = (Completed 0 out err, fs)"
    and "fs (os_path_join (MODEL_CACHE_DIR P) (stem @ ''.json'')) = Some content"
    and "\<forall>p. remove_error P p = None"
  shows "result_path P name = os_path_join (MODEL_CACHE_DIR P) (stem @ ''.json'') \<and>
         take 9 (build_cmd P name language prompt temp)
           = [VENV_PYTHON, WHISPER_SCRIPT, name, ''--model'', model_name P,
              ''--output_format'', ''json'', ''--output_dir'', MODEL_CACHE_DIR P] \<and>
         events (snd (run_transcription_slow_lane P audio language prompt temp w))
           = events w @ [EnterSlowLane, WorkerSpawn (build_cmd P name language prompt temp)] \<and>
         fst (run_transcription_slow_lane P audio language prompt temp w) = json_loads P content"
proof -
  have rp: "result_path P name = os_path_join (MODEL_CACHE_DIR P) (stem @ ''.json'')"
    using assms(2-4) by (simp add: result_path_of_staged)
  have ne: "name \<noteq> []"
    using assms(2) by (simp add: os_path_join_nonempty)
  have run: "run_transcription_slow_lane P audio language prompt temp w
           = (load_json P (result_path P name) (w\<lparr>files := fs\<rparr>),
              w\<lparr>files := fs(name := None, result_path P name := None),
                events := events w @
                  [EnterSlowLane, WorkerSpawn (build_cmd P name language prompt temp)]\<rparr>)"
    using assms(1) ne assms(5) assms(6) assms(8)
    by (intro run_transcription_slow_lane_worker_done) simp_all
  have "load_json P (result_path P name) (w\<lparr>files := fs\<rparr>) = json_loads P content"
    using assms(7) by (simp add: load_json_def rp)
  with rp run show ?thesis
    by (simp add: build_cmd_def)
qed

theorem output_path_follows_input_name_witness:
  "mkstemp demo (Some (MODEL_CACHE_DIR demo)) ''.wav'' (files busy_world) = Inr ''/s/whisper/tmpx.wav'' \<and>
   ''/s/whisper/tmpx.wav'' = os_path_join ''/s/whisper'' (''tmpx'' @ ''.wav'') \<and>
   CHR ''/'' \<notin> set ''tmpx'' \<and> has_non_dot ''tmpx'' \<and>
   write_error demo ''/s/whisper/tmpx.wav'' ''abc'' = None \<and>
   subprocess_run demo (build_cmd demo ''/s/whisper/tmpx.wav'' None None ''0.0'') (sub_env demo)
       ((files busy_world)(''/s/whisper/tmpx.wav'' \<mapsto> ''abc''))
     = (Completed 0 [] [],
        (files busy_world)(''/s/whisper/tmpx.wav'' \<mapsto> ''abc'', ''/s/whisper/tmpx.json'' \<mapsto> ''J'')) \<and>
   (\<forall>p. remove_error demo p = None) \<and>
   result_path demo ''/s/whisper/tmpx.wav'' = ''/s/whisper/tmpx.json'' \<and>
   fst (run_transcription_slow_lane demo ''abc'' None None ''0.0'' busy_world)
     = Inr (PDict [(''text'', PStr ''hi'')])"
proof -
  have a: "mkstemp demo (Some (MODEL_CACHE_DIR demo)) ''.wav'' (files busy_world)
             = Inr ''/s/whisper/tmpx.wav''"
    by (simp add: demo_def path_defs)
  have b: "''/s/whisper/tmpx.wav'' = os_path_join ''/s/whisper'' (''tmpx'' @ ''.wav'')"
    by (simp add: os_path_join_def)
  have c: "CHR ''/'' \<notin> set ''tmpx''" "has_non_dot ''tmpx''"
    by simp_all
  have d: "write_error demo ''/s/whisper/tmpx.wav'' ''abc'' = None"
    by (simp add: demo_def)
  have e: "subprocess_run demo (build_cmd demo ''/s/whisper/tmpx.wav'' None None ''0.0'')
       (sub_env demo) ((files busy_world)(''/s/whisper/tmpx.wav'' \<mapsto> ''abc''))
     = (Completed 0 [] [],
        (files busy_world)(''/s/whisper/tmpx.wav'' \<mapsto> ''abc'', ''/s/whisper/tmpx.json'' \<mapsto> ''J''))"
    by (simp add: demo_def demo_worker_def)
  have f: "((files busy_world)(''/s/whisper/tmpx.wav'' \<mapsto> ''abc'', ''/s/whisper/tmpx.json'' \<mapsto> ''J''))
             (os_path_join (MODEL_CACHE_DIR demo) (''tmpx'' @ ''.json'')) = Some ''J''"
    by (simp add: demo_def path_defs)
  have g: "\<forall>p. remove_error demo p = None"
    by (simp add: demo_def)
  have h: "json_loads demo ''J'' = Inr (PDict [(''text'', PStr ''hi'')])"
    "os_path_join (MODEL_CACHE_DIR demo) (''tmpx'' @ ''.json'') = ''/s/whisper/tmpx.json''"
    by (simp_all add: demo_def demo_json_def path_defs)
  show ?thesis
    using a b c d e g h output_path_follows_input_name [OF a b c d e f g]
    by simp
qed

text \<open>
  Claim C9. The slow lane starts the worker on the command \<open>build_cmd\<close>, in which an
  empty language or prompt gives the same command as an absent one, and a non-empty one
  adds its flag and its value. The fast lane calls the engine on the language and the
  prompt as they are, the empty string included.
\<close>

theorem empty_string_is_absent_for_worker_only:
  assumes "mkstemp P (Some (MODEL_CACHE_DIR P)) ''.wav'' (files w) = Inr t_audio"
    and "write_error P t_audio audio = None"
    and "mkstemp P None [] (files w) = Inr temp_path"
    and "write_error P temp_path audio = None"
    and "whisper_model P = Some m"
  shows "events (snd (run_transcription_slow_lane P audio language prompt temp w))
           = events w @ [EnterSlowLane, WorkerSpawn (build_cmd P t_audio language prompt temp)] \<and>
         build_cmd P t_audio (Some []) prompt temp = build_cmd P t_audio None prompt temp \<and>
         build_cmd P t_audio language (Some []) temp = build_cmd P t_audio language None temp \<and>
         (\<forall>l. l \<noteq> [] \<longrightarrow>
            build_cmd P t_audio (Some l) None temp
              = build_cmd P t_audio None None temp @ [''--language'', l]) \<and>
         (\<forall>q. q \<noteq> [] \<longrightarrow>
            build_cmd P t_audio None (Some q) temp
              = build_cmd P t_audio None None temp @ [''--initial_prompt'', q]) \<and>
         (\<forall>l q. l \<noteq> [] \<and> q \<noteq> [] \<longrightarrow>
            build_cmd P t_audio (Some l) (Some q) temp
              = build_cmd P t_audio None None temp @ [''--language'', l, ''--initial_prompt'', q]) \<and>
         events (snd (run_transcription_fast_lane P audio language prompt temp w))
           = events w @ [EnterFastLane, EngineCall temp_path language prompt temp] \<and>
         fst (fast_lane_try P audio language prompt temp w)
           = fst (m temp_path language prompt temp ((files w)(temp_path \<mapsto> audio)))"
  using slow_lane_runs_built_command [OF assms(1,2)] fast_lane_calls_engine [OF assms(3,4,5)]
    fast_lane_try_staged [OF assms(3,4,5)]
  by (simp add: build_cmd_def extend_if_def)

theorem empty_string_is_absent_for_worker_only_witness:
  "mkstemp demo (Some (MODEL_CACHE_DIR demo)) ''.wav'' (files idle_world) = Inr ''/s/whisper/tmpx.wav'' \<and>
   write_error demo ''/s/whisper/tmpx.wav'' ''abc'' = None \<and>
   mkstemp demo None [] (files idle_world) = Inr ''/tmp/tmpx'' \<and>
   write_error demo ''/tmp/tmpx'' ''abc'' = None \<and>
   whisper_model demo = Some demo_engine \<and>
   events (snd (run_transcription_slow_lane demo ''abc'' (Some []) (Some ''names'') ''0.0'' idle_world))
     = [EnterSlowLane,
        WorkerSpawn [VENV_PYTHON, WHISPER_SCRIPT, ''/s/whisper/tmpx.wav'', ''--model'', ''medium'',
                     ''--output_format'', ''json'', ''--output_dir'', ''/s/whisper'',
                     ''--temperature'', ''0.0'', ''--initial_prompt'', ''names'']] \<and>
   events (snd (run_transcription_fast_lane demo ''abc'' (Some []) (Some ''names'') ''0.0'' idle_world))
     = [EnterFastLane, EngineCall ''/tmp/tmpx'' (Some []) (Some ''names'') ''0.0'']"
proof -
  have a: "mkstemp demo (Some (MODEL_CACHE_DIR demo)) ''.wav'' (files idle_world)
             = Inr ''/s/whisper/tmpx.wav''"
    by (simp add: demo_def path_defs)
  have b: "write_error demo ''/s/whisper/tmpx.wav'' ''abc'' = None"
    by (simp add: demo_def)
  have c: "mkstemp demo None [] (files idle_world) = Inr ''/tmp/tmpx''"
    by (simp add: demo_def path_defs)
  have d: "write_error demo ''/tmp/tmpx'' ''abc'' = None"
    by (simp add: demo_def)
  have e: "build_cmd demo ''/s/whisper/tmpx.wav'' (Some []) (Some ''names'') ''0.0''
     = [VENV_PYTHON, WHISPER_SCRIPT, ''/s/whisper/tmpx.wav'', ''--model'', ''medium'',
        ''--output_format'', ''json'', ''--output_dir'', ''/s/whisper'',
        ''--temperature'', ''0.0'', ''--initial_prompt'', ''names'']"
    by (simp add: build_cmd_def extend_if_def model_name_def demo_def path_defs)
  have i: "events idle_world = []"
    by (simp add: idle_world_def)
  show ?thesis
    using a b c d demo_engine_loaded e i
      empty_string_is_absent_for_worker_only [OF a b c d demo_engine_loaded,
        of "Some []" "Some ''names''" "''0.0''"]
    by simp
qed

subsection \<open>Cleanup\<close>

text \<open>
  What the \<^verbatim>\<open>finally\<close> block of the slow lane achieves. Once the staging file is
  written, and provided no removal is refused, the staging file is gone when the lane is
  left, whatever the worker did; and when the worker returned 0 the output file at the
  derived path is gone as well, whether or not it could be read and parsed.
\<close>

lemma slow_lane_removes_artifacts:
  assumes "mkstemp P (Some (MODEL_CACHE_DIR P)) ''.wav'' (files w) = Inr name" and "name \<noteq> []"
    and "write_error P name audio = None"
    and "subprocess_run P (build_cmd P name language prompt temp) (sub_env P)
           ((files w)(name \<mapsto> audio)) = (po, fs)"
    and "\<forall>p. remove_error P p = None"
  shows "files (snd (run_transcription_slow_lane P audio language prompt temp w)) name = None \<and>
         (\<forall>out err. po = Completed 0 out err \<longrightarrow>
            files (snd (run_transcription_slow_lane P audio language prompt temp w))
              (result_path P name) = None)"
proof (cases po)
  case (SpawnError e)
  with assms run_transcription_slow_lane_spawn_failed [of P w name audio language prompt temp e fs]
  show ?thesis by simp
next
  case (Completed rc out err)
  show ?thesis
  proof (cases "rc = 0")
    case True
    with Completed assms
      run_transcription_slow_lane_worker_done [of P w name audio language prompt temp out err fs]
    show ?thesis by simp
  next
    case False
    with Completed assms
      run_transcription_slow_lane_worker_failed [of P w name audio language prompt temp rc out err fs]
    show ?thesis by simp
  qed
qed

lemma slow_lane_removes_artifacts_at_demo:
  "mkstemp demo (Some (MODEL_CACHE_DIR demo)) ''.wav'' (files busy_world) = Inr ''/s/whisper/tmpx.wav'' \<and>
   write_error demo ''/s/whisper/tmpx.wav'' ''abc'' = None \<and>
   subprocess_run demo (build_cmd demo ''/s/whisper/tmpx.wav'' None None ''0.0'') (sub_env demo)
       ((files busy_world)(''/s/whisper/tmpx.wav'' \<mapsto> ''abc''))
     = (Completed 0 [] [],
        (files busy_world)(''/s/whisper/tmpx.wav'' \<mapsto> ''abc'', ''/s/whisper/tmpx.json'' \<mapsto> ''J'')) \<and>
   (\<forall>p. remove_error demo p = None) \<and>
   files (snd (run_transcription_slow_lane demo ''abc'' None None ''0.0'' busy_world))
     ''/s/whisper/tmpx.wav'' = None \<and>
   files (snd (run_transcription_slow_lane demo ''abc'' None None ''0.0'' busy_world))
     ''/s/whisper/tmpx.json'' = None"
proof -
  have a: "mkstemp demo (Some (MODEL_CACHE_DIR demo)) ''.wav'' (files busy_world)
             = Inr ''/s/whisper/tmpx.wav''"
    by (simp add: demo_def path_defs)
  have b: "''/s/whisper/tmpx.wav'' \<noteq> []"
    by simp
  have c: "write_error demo ''/s/whisper/tmpx.wav'' ''abc'' = None"
    by (simp add: demo_def)
  have d: "subprocess_run demo (build_cmd demo ''/s/whisper/tmpx.wav'' None None ''0.0'')
       (sub_env demo) ((files busy_world)(''/s/whisper/tmpx.wav'' \<mapsto> ''abc''))
     = (Completed 0 [] [],
        (files busy_world)(''/s/whisper/tmpx.wav'' \<mapsto> ''abc'', ''/s/whisper/tmpx.json'' \<mapsto> ''J''))"
    by (simp add: demo_def demo_worker_def)
  have e: "\<forall>p. remove_error demo p = None"
    by (simp add: demo_def)
  have f: "result_path demo ''/s/whisper/tmpx.wav'' = ''/s/whisper/tmpx.json''"
    by (simp add: demo_def path_defs)
  show ?thesis
    using a c d e f slow_lane_removes_artifacts [OF a b c d e]
    by simp
qed

text \<open>
  Claim C3. After a slow-lane invocation (worker success, worker non-zero exit, failure
  to read or parse the output) neither the input staging artifact nor the output staging
  artifact of that invocation should remain. The module does not keep this after a
  non-zero exit: \<^verbatim>\<open>r_path\<close> is assigned on line 117, after \<^verbatim>\<open>subprocess.run\<close> has
  returned with code 0, so when the worker has written its output file and then returns
  1, \<^verbatim>\<open>r_path\<close> is still \<^verbatim>\<open>None\<close> in the \<^verbatim>\<open>finally\<close> block and only the input file
  is removed. The same worker returning 0 has both files removed, and so has a worker
  whose output does not parse.
\<close>

theorem slow_lane_leaves_output_after_worker_failure:
  "fst (subprocess_run demo_worker_fails [] Map.empty Map.empty)
     = Completed 1 [] ''out of memory'' \<and>
   fst (run_transcription_slow_lane demo_worker_fails ''abc'' None None ''0.0'' busy_world)
     = Inl (CalledProcessError 1
              (build_cmd demo_worker_fails ''/s/whisper/tmpx.wav'' None None ''0.0'')
              [] ''out of memory'') \<and>
   files (snd (run_transcription_slow_lane demo_worker_fails ''abc'' None None ''0.0'' busy_world))
     ''/s/whisper/tmpx.wav'' = None \<and>
   files (snd (run_transcription_slow_lane demo_worker_fails ''abc'' None None ''0.0'' busy_world))
     ''/s/whisper/tmpx.json'' = Some ''J'' \<and>
   files (snd (run_transcription_slow_lane demo ''abc'' None None ''0.0'' busy_world))
     ''/s/whisper/tmpx.json'' = None \<and>
   fst (run_transcription_slow_lane demo_bad_json ''abc'' None None ''0.0'' busy_world)
     = Inl (JSONDecodeError ''Expecting value: line 1 column 1 (char 0)'') \<and>
   files (snd (run_transcription_slow_lane demo_bad_json ''abc'' None None ''0.0'' busy_world))
     ''/s/whisper/tmpx.json'' = None"
  by (simp add: model_defs demo_defs demo_bad_json_def path_defs)

text \<open>
  Claim C4, as amended. Once the bytes are written to the temporary file, and provided
  its removal is not refused, the file is gone when the fast lane is left, and the lane
  returns what the engine returned or raises what the engine raised.
\<close>

theorem fast_lane_removes_temp_file:
  assumes "mkstemp P None [] (files w) = Inr name" and "name \<noteq> []"
    and "write_error P name audio = None"
    and "whisper_model P = Some m"
    and "remove_error P name = None"
  shows "files (snd (run_transcription_fast_lane P audio language prompt temp w)) name = None \<and>
         fst (run_transcription_fast_lane P audio language prompt temp w)
           = fst (m name language prompt temp ((files w)(name \<mapsto> audio)))"
  using run_transcription_fast_lane_staged [OF assms] by simp

theorem fast_lane_removes_temp_file_witness:
  "mkstemp demo None [] (files idle_world) = Inr ''/tmp/tmpx'' \<and>
   write_error demo ''/tmp/tmpx'' ''abc'' = None \<and>
   whisper_model demo = Some demo_engine \<and>
   remove_error demo ''/tmp/tmpx'' = None \<and>
   files (snd (run_transcription_fast_lane demo ''abc'' None None ''0.0'' idle_world)) ''/tmp/tmpx''
     = None \<and>
   fst (run_transcription_fast_lane demo ''abc'' None None ''0.0'' idle_world)
     = Inr (PDict [(''text'', PStr ''abc''), (''language'', PStr ''en'')])"
proof -
  have a: "mkstemp demo None [] (files idle_world) = Inr ''/tmp/tmpx''"
    by (simp add: demo_def path_defs)
  have b: "''/tmp/tmpx'' \<noteq> []"
    by simp
  have c: "write_error demo ''/tmp/tmpx'' ''abc'' = None"
    by (simp add: demo_def)
  have d: "remove_error demo ''/tmp/tmpx'' = None"
    by (simp add: demo_def)
  show ?thesis
    using a c d demo_engine_loaded
      fast_lane_removes_temp_file [OF a b c demo_engine_loaded d, of None None "''0.0''"]
    by (simp add: demo_engine_def idle_world_def)
qed

text \<open>
  The claim as stated fails on two exit paths. When \<^verbatim>\<open>t.write\<close> raises, \<^verbatim>\<open>temp_path\<close>
  is still \<^verbatim>\<open>None\<close> and the file that \<^verbatim>\<open>NamedTemporaryFile\<close> created stays; when
  \<^verbatim>\<open>os.remove\<close> raises, the file stays as well.
\<close>

theorem fast_lane_leaves_temp_file_counterexample:
  "fst (run_transcription_fast_lane demo_disk_full ''abc'' None None ''0.0'' idle_world)
     = Inl (OSError ''[Errno 28] No space left on device'') \<and>
   files (snd (run_transcription_fast_lane demo_disk_full ''abc'' None None ''0.0'' idle_world))
     ''/tmp/tmpx'' = Some [] \<and>
   files (snd (run_transcription_fast_lane demo_no_remove ''abc'' None None ''0.0'' idle_world))
     ''/tmp/tmpx'' = Some ''abc''"
  by (simp add: model_defs demo_defs path_defs)

text \<open>With no removal refused, the \<^verbatim>\<open>finally\<close> block changes no outcome.\<close>

lemma fast_lane_result_kept:
  assumes "\<forall>p. remove_error P p = None"
    and "fast_lane_try P a l q t (log_event EnterFastLane w) = (r, tp, w1)"
  shows "fst (run_transcription_fast_lane P a l q t w) = r"
proof -
  obtain y where "remove_if_exists P tp w1 = (Inr (), y)"
    using remove_if_exists_never_fails [OF assms(1), of tp w1]
    by (cases "remove_if_exists P tp w1") simp
  with assms(2) show ?thesis
    by (simp add: run_transcription_fast_lane_def)
qed

lemma slow_lane_result_kept:
  assumes "\<forall>p. remove_error P p = None"
    and "slow_lane_try P a l q t (log_event EnterSlowLane w) = (r, ta, rp, w1)"
  shows "fst (run_transcription_slow_lane P a l q t w) = r"
proof -
  obtain y where y: "remove_if_exists P ta w1 = (Inr (), y)"
    using remove_if_exists_never_fails [OF assms(1), of ta w1]
    by (cases "remove_if_exists P ta w1") simp
  obtain z where "remove_if_exists P rp y = (Inr (), z)"
    using remove_if_exists_never_fails [OF assms(1), of rp y]
    by (cases "remove_if_exists P rp y") simp
  with y assms(2) show ?thesis
    by (simp add: run_transcription_slow_lane_def)
qed

text \<open>
  Claim C8, as amended. A result obtained in the \<^verbatim>\<open>try\<close> block of either lane is
  returned when no removal is refused in the \<^verbatim>\<open>finally\<close> block. When the removal of
  the staging file is refused, the lane raises the error of \<^verbatim>\<open>os.remove\<close> in place of
  the result.
\<close>

theorem result_survives_cleanup_unless_removal_fails:
  "((\<forall>p. remove_error P p = None) \<and>
    fast_lane_try P a l q t (log_event EnterFastLane w) = (Inr res, tp, w1) \<longrightarrow>
      fst (run_transcription_fast_lane P a l q t w) = Inr res) \<and>
   ((\<forall>p. remove_error P p = None) \<and>
    slow_lane_try P a l q t (log_event EnterSlowLane w) = (Inr sres, ta, rp, w2) \<longrightarrow>
      fst (run_transcription_slow_lane P a l q t w) = Inr sres) \<and>
   (fast_lane_try P a l q t (log_event EnterFastLane w) = (Inr res, Some name, w1) \<and>
    name \<noteq> [] \<and> files w1 name = Some c \<and> remove_error P name = Some e \<longrightarrow>
      fst (run_transcription_fast_lane P a l q t w) = Inl e) \<and>
   (slow_lane_try P a l q t (log_event EnterSlowLane w) = (Inr sres, Some sname, rp, w2) \<and>
    sname \<noteq> [] \<and> files w2 sname = Some sc \<and> remove_error P sname = Some se \<longrightarrow>
      fst (run_transcription_slow_lane P a l q t w) = Inl se)"
proof (intro conjI impI)
  assume "(\<forall>p. remove_error P p = None) \<and>
    fast_lane_try P a l q t (log_event EnterFastLane w) = (Inr res, tp, w1)"
  then have "\<forall>p. remove_error P p = None"
    and "fast_lane_try P a l q t (log_event EnterFastLane w) = (Inr res, tp, w1)"
    by simp_all
  then show "fst (run_transcription_fast_lane P a l q t w) = Inr res"
    by (rule fast_lane_result_kept)
next
  assume "(\<forall>p. remove_error P p = None) \<and>
    slow_lane_try P a l q t (log_event EnterSlowLane w) = (Inr sres, ta, rp, w2)"
  then have "\<forall>p. remove_error P p = None"
    and "slow_lane_try P a l q t (log_event EnterSlowLane w) = (Inr sres, ta, rp, w2)"
    by simp_all
  then show "fst (run_transcription_slow_lane P a l q t w) = Inr sres"
    by (rule slow_lane_result_kept)
next
  assume "fast_lane_try P a l q t (log_event EnterFastLane w) = (Inr res, Some name, w1) \<and>
    name \<noteq> [] \<and> files w1 name = Some c \<and> remove_error P name = Some e"
  then show "fst (run_transcription_fast_lane P a l q t w) = Inl e"
    by (simp add: run_transcription_fast_lane_def remove_if_exists_fails)
next
  assume "slow_lane_try P a l q t (log_event EnterSlowLane w) = (Inr sres, Some sname, rp, w2) \<and>
    sname \<noteq> [] \<and> files w2 sname = Some sc \<and> remove_error P sname = Some se"
  then show "fst (run_transcription_slow_lane P a l q t w) = Inl se"
    by (simp add: run_transcription_slow_lane_def remove_if_exists_fails)
qed

theorem result_survives_cleanup_unless_removal_fails_witness:
  "(\<forall>p. remove_error demo p = None) \<and>
   fst (fast_lane_try demo ''abc'' None None ''0.0'' (log_event EnterFastLane idle_world))
     = Inr (PDict [(''text'', PStr ''abc''), (''language'', PStr ''en'')]) \<and>
   fst (run_transcription_fast_lane demo ''abc'' None None ''0.0'' idle_world)
     = Inr (PDict [(''text'', PStr ''abc''), (''language'', PStr ''en'')]) \<and>
   fst (slow_lane_try demo ''abc'' None None ''0.0'' (log_event EnterSlowLane idle_world))
     = Inr (PDict [(''text'', PStr ''hi'')]) \<and>
   fst (run_transcription_slow_lane demo ''abc'' None None ''0.0'' idle_world)
     = Inr (PDict [(''text'', PStr ''hi'')]) \<and>
   remove_error demo_no_remove ''/tmp/tmpx'' = Some (OSError ''[Errno 13] Permission denied'') \<and>
   fst (fast_lane_try demo_no_remove ''abc'' None None ''0.0'' (log_event EnterFastLane idle_world))
     = Inr (PDict [(''text'', PStr ''abc''), (''language'', PStr ''en'')]) \<and>
   fst (run_transcription_fast_lane demo_no_remove ''abc'' None None ''0.0'' idle_world)
     = Inl (OSError ''[Errno 13] Permission denied'') \<and>
   fst (slow_lane_try demo_no_remove ''abc'' None None ''0.0'' (log_event EnterSlowLane idle_world))
     = Inr (PDict [(''text'', PStr ''hi'')]) \<and>
   fst (run_transcription_slow_lane demo_no_remove ''abc'' None None ''0.0'' idle_world)
     = Inl (OSError ''[Errno 13] Permission denied'')"
proof -
  obtain w1 where f1: "fast_lane_try demo ''abc'' None None ''0.0'' (log_event EnterFastLane idle_world)
      = (Inr (PDict [(''text'', PStr ''abc''), (''language'', PStr ''en'')]), Some ''/tmp/tmpx'', w1)"
    by (simp add: model_defs demo_defs path_defs)
  obtain w2 where s1: "slow_lane_try demo ''abc'' None None ''0.0'' (log_event EnterSlowLane idle_world)
      = (Inr (PDict [(''text'', PStr ''hi'')]), Some ''/s/whisper/tmpx.wav'',
         Some ''/s/whisper/tmpx.json'', w2)"
    by (simp add: model_defs demo_defs path_defs)
  obtain w3 where f2: "fast_lane_try demo_no_remove ''abc'' None None ''0.0''
        (log_event EnterFastLane idle_world)
      = (Inr (PDict [(''text'', PStr ''abc''), (''language'', PStr ''en'')]), Some ''/tmp/tmpx'', w3)"
    and f3: "files w3 ''/tmp/tmpx'' = Some ''abc''"
    by (simp add: model_defs demo_defs path_defs)
  obtain w4 where s2: "slow_lane_try demo_no_remove ''abc'' None None ''0.0''
        (log_event EnterSlowLane idle_world)
      = (Inr (PDict [(''text'', PStr ''hi'')]), Some ''/s/whisper/tmpx.wav'',
         Some ''/s/whisper/tmpx.json'', w4)"
    and s3: "files w4 ''/s/whisper/tmpx.wav'' = Some ''abc''"
    by (simp add: model_defs demo_defs path_defs)
  have r1: "\<forall>p. remove_error demo p = None"
    by (simp add: demo_def)
  have r2: "remove_error demo_no_remove ''/tmp/tmpx'' = Some (OSError ''[Errno 13] Permission denied'')"
    "remove_error demo_no_remove ''/s/whisper/tmpx.wav''
       = Some (OSError ''[Errno 13] Permission denied'')"
    by (simp_all add: demo_no_remove_def demo_def)
  show ?thesis
    using f1 s1 f2 f3 s2 s3 r1 r2
      result_survives_cleanup_unless_removal_fails
        [where P = demo and a = "''abc''" and l = None and q = None and t = "''0.0''"
           and w = idle_world and tp = "Some ''/tmp/tmpx''" and ?w1.0 = w1
           and res = "PDict [(''text'', PStr ''abc''), (''language'', PStr ''en'')]"
           and sres = "PDict [(''text'', PStr ''hi'')]"
           and ta = "Some ''/s/whisper/tmpx.wav''" and rp = "Some ''/s/whisper/tmpx.json''"
           and ?w2.0 = w2]
      result_survives_cleanup_unless_removal_fails
        [where P = demo_no_remove and a = "''abc''" and l = None and q = None and t = "''0.0''"
           and w = idle_world and ?w1.0 = w3
           and res = "PDict [(''text'', PStr ''abc''), (''language'', PStr ''en'')]"
           and name = "''/tmp/tmpx''" and c = "''abc''"
           and e = "OSError ''[Errno 13] Permission denied''"
           and sres = "PDict [(''text'', PStr ''hi'')]"
           and rp = "Some ''/s/whisper/tmpx.json''" and ?w2.0 = w4
           and sname = "''/s/whisper/tmpx.wav''" and sc = "''abc''"
           and se = "OSError ''[Errno 13] Permission denied''"]
    by simp
qed

text \<open>
  The claim as stated fails: with a removal that is refused, the fast lane has the
  engine's result and raises the removal error, and the handler answers with the error 500.
\<close>

theorem cleanup_failure_masks_result_counterexample:
  "fst (fast_lane_try demo_no_remove ''abc'' None None ''0.0'' (log_event EnterFastLane idle_world))
     = Inr (PDict [(''text'', PStr ''abc''), (''language'', PStr ''en'')]) \<and>
   fst (run_transcription_fast_lane demo_no_remove ''abc'' None None ''0.0'' idle_world)
     = Inl (OSError ''[Errno 13] Permission denied'') \<and>
   fst (create_transcription demo_no_remove demo_request idle_world)
     = Inl (HTTPException 500 ''[Errno 13] Permission denied'')"
  by (simp add: model_defs demo_defs path_defs)

subsection \<open>The response to a failed worker\<close>

text \<open>
  Claim C5, as amended. When the lock is held and the worker returns a code other than
  0, the handler raises the error 500 whose detail is \<^verbatim>\<open>str\<close> of the
  \<^verbatim>\<open>CalledProcessError\<close>: the command and the return code, and nothing of what the
  worker printed. The staging file is gone afterwards, provided its removal is not
  refused.
\<close>

theorem worker_failure_reports_command_and_status:
  assumes "whisper_model P = Some m" and "lock_held w"
    and "mkstemp P (Some (MODEL_CACHE_DIR P)) ''.wav'' (files w) = Inr name" and "name \<noteq> []"
    and "write_error P name (form_file req) = None"
    and "subprocess_run P
           (build_cmd P name (form_language req) (form_prompt req) (form_temperature req))
           (sub_env P) ((files w)(name \<mapsto> form_file req)) = (Completed rc out err, fs)"
    and "rc \<noteq> 0"
    and "remove_error P name = None"
  shows "fst (create_transcription P req w)
           = Inl (HTTPException 500
                   (str_called_process_error P rc
                      (build_cmd P name (form_language req) (form_prompt req)
                         (form_temperature req)))) \<and>
         files (snd (create_transcription P req w)) name = None"
proof -
  let ?w = "log_event (LockAcquire False) w"
  have "mkstemp P (Some (MODEL_CACHE_DIR P)) ''.wav'' (files ?w) = Inr name"
    and "subprocess_run P
           (build_cmd P name (form_language req) (form_prompt req) (form_temperature req))
           (sub_env P) ((files ?w)(name \<mapsto> form_file req)) = (Completed rc out err, fs)"
    using assms(3,6) by (simp_all add: log_event_def)
  from run_transcription_slow_lane_worker_failed [OF this(1) assms(4,5) this(2) assms(7,8)]
    assms(1,2)
  show ?thesis
    by (simp add: create_transcription_def dispatch_def lock_acquire_nonblocking_def)
qed

theorem worker_failure_reports_command_and_status_witness:
  "whisper_model demo_worker_fails = Some demo_engine \<and> lock_held busy_world \<and>
   mkstemp demo_worker_fails (Some (MODEL_CACHE_DIR demo_worker_fails)) ''.wav'' (files busy_world)
     = Inr ''/s/whisper/tmpx.wav'' \<and>
   write_error demo_worker_fails ''/s/whisper/tmpx.wav'' (form_file demo_request) = None \<and>
   (1::int) \<noteq> 0 \<and>
   remove_error demo_worker_fails ''/s/whisper/tmpx.wav'' = None \<and>
   fst (create_transcription demo_worker_fails demo_request busy_world)
     = Inl (HTTPException 500
             (str_called_process_error demo_worker_fails 1
                [VENV_PYTHON, WHISPER_SCRIPT, ''/s/whisper/tmpx.wav'', ''--model'', ''medium'',
                 ''--output_format'', ''json'', ''--output_dir'', ''/s/whisper'',
                 ''--temperature'', ''0.0'', ''--initial_prompt'', ''names''])) \<and>
   files (snd (create_transcription demo_worker_fails demo_request busy_world))
     ''/s/whisper/tmpx.wav'' = None"
proof -
  have a: "whisper_model demo_worker_fails = Some demo_engine"
    by (simp add: whisper_model_def demo_worker_fails_def demo_def)
  have b: "lock_held busy_world"
    by (simp add: busy_world_def)
  have c: "mkstemp demo_worker_fails (Some (MODEL_CACHE_DIR demo_worker_fails)) ''.wav''
             (files busy_world) = Inr ''/s/whisper/tmpx.wav''"
    by (simp add: demo_worker_fails_def demo_def path_defs)
  have d: "''/s/whisper/tmpx.wav'' \<noteq> []"
    by simp
  have e: "write_error demo_worker_fails ''/s/whisper/tmpx.wav'' (form_file demo_request) = None"
    by (simp add: demo_worker_fails_def demo_def)
  have f: "subprocess_run demo_worker_fails
           (build_cmd demo_worker_fails ''/s/whisper/tmpx.wav'' (form_language demo_request)
              (form_prompt demo_request) (form_temperature demo_request))
           (sub_env demo_worker_fails)
           ((files busy_world)(''/s/whisper/tmpx.wav'' \<mapsto> form_file demo_request))
         = (Completed 1 [] ''out of memory'',
            (files busy_world)(''/s/whisper/tmpx.wav'' \<mapsto> form_file demo_request,
                               ''/s/whisper/tmpx.json'' \<mapsto> ''J''))"
    by (simp add: demo_worker_fails_def demo_def failing_worker_def)
  have g: "(1::int) \<noteq> 0"
    by simp
  have h: "remove_error demo_worker_fails ''/s/whisper/tmpx.wav'' = None"
    by (simp add: demo_worker_fails_def demo_def)
  have i: "build_cmd demo_worker_fails ''/s/whisper/tmpx.wav'' (form_language demo_request)
              (form_prompt demo_request) (form_temperature demo_request)
     = [VENV_PYTHON, WHISPER_SCRIPT, ''/s/whisper/tmpx.wav'', ''--model'', ''medium'',
        ''--output_format'', ''json'', ''--output_dir'', ''/s/whisper'',
        ''--temperature'', ''0.0'', ''--initial_prompt'', ''names'']"
    by (simp add: build_cmd_def extend_if_def model_name_def demo_worker_fails_def demo_def
        demo_request_def path_defs)
  show ?thesis
    using a b c e g h i worker_failure_reports_command_and_status [OF a b c d e f g h]
    by simp
qed

text \<open>
  The claim as stated fails: a worker that prints \<open>out of memory\<close> on stderr and returns
  1 gives a detail in which that text does not occur.
\<close>

theorem worker_failure_detail_lacks_stderr_counterexample:
  "fst (subprocess_run demo_worker_fails [] Map.empty Map.empty)
     = Completed 1 [] ''out of memory'' \<and>
   fst (create_transcription demo_worker_fails demo_request busy_world)
     = Inl (HTTPException 500
         (''Command '['/usr/local/lib/whisper/bin/python', '/usr/local/lib/whisper/bin/whisper',''
          @ '' '/s/whisper/tmpx.wav', '--model', 'medium', '--output_format', 'json',''
          @ '' '--output_dir', '/s/whisper', '--temperature', '0.0', '--initial_prompt',''
          @ '' 'names']' returned non-zero exit status 1.'')) \<and>
   \<not> sublist ''out of memory''
       (detail (projl (fst (create_transcription demo_worker_fails demo_request busy_world))))"
  by code_simp

end
